theory Spec2Isabelle
  imports Main
begin

section \<open>Values shared by the application module\<close>

text \<open>
  The module \<^verbatim>\<open>py27/bacpypes/app.py\<close> holds three classes with behaviour of their own:
  \<^verbatim>\<open>DeviceInfoCache\<close>, \<^verbatim>\<open>ApplicationController\<close> and \<^verbatim>\<open>Application\<close>.  Python objects
  are mutable and shared, so every object that is reachable under more than one name lives
  in a store (a list indexed by reference) and the dictionaries hold references.
\<close>

text \<open>
  Modelled from the spec: the class \<^verbatim>\<open>Address\<close> of \<^verbatim>\<open>pdu.py\<close> is imported, not defined, by
  the module.  An address is a value of an address type, an optional network number and the
  station's octets; two addresses are the same dictionary key when all three agree.
\<close>

datatype addr_type =
  nullAddr | localBroadcastAddr | localStationAddr
  | remoteBroadcastAddr | remoteStationAddr | globalBroadcastAddr

datatype Address = Address (addrType: addr_type) (addrNet: "nat option") (addrAddr: "nat list")

text \<open>
  What a caller can pass as a key, and what can end up as a key of the cache dictionary:
  \<^verbatim>\<open>None\<close>, an \<^verbatim>\<open>int\<close>, an \<^verbatim>\<open>Address\<close>, or an object of any other class (named by a string).
\<close>

datatype pykey = NoneKey | IntKey int | AddrKey Address | OtherKey string

datatype error =
  TypeError string
  | KeyError pykey
  | AttributeError string
  | RuntimeError string
  | UnboundLocalError string
  | UnrecognizedService string
  | RejectException string
  | AbortException string
  | NoSuchObject

text \<open>
  \<^const>\<open>NoSuchObject\<close> is the one value with no Python counterpart: a reference that points
  outside the store.  Python has no dangling references; the functions below return it
  instead of reading the store out of range.
\<close>

datatype segmentation = noSegmentation | segmentedTransmit | segmentedReceive | segmentedBoth

section \<open>DeviceInfo and DeviceInfoCache\<close>

text \<open>
  \<^verbatim>\<open>DeviceInfo.__init__\<close> sets seven attributes.  The attribute \<^verbatim>\<open>_cache_keys\<close> is not among
  them: \<^verbatim>\<open>get_device_info\<close> adds it when it builds a record, so it is optional here and
  reading it from a record that lacks it is an \<^verbatim>\<open>AttributeError\<close>.
\<close>

record DeviceInfo =
  deviceIdentifier :: "int option"
  address :: "Address option"
  maxApduLengthAccepted :: int
  segmentationSupported :: segmentation
  vendorID :: "int option"
  maxNpduLength :: int
  maxSegmentsAccepted :: "int option"
  cache_keys :: "(int option \<times> Address option) option"

definition new_DeviceInfo :: DeviceInfo where
  "new_DeviceInfo =
     \<lparr> deviceIdentifier = None, address = None, maxApduLengthAccepted = 1024,
       segmentationSupported = noSegmentation, vendorID = None,
       maxNpduLength = 1497, maxSegmentsAccepted = None, cache_keys = None \<rparr>"

text \<open>The fields of an \<^verbatim>\<open>IAmRequest\<close> that \<^verbatim>\<open>add_device_info\<close> reads.\<close>

record IAmRequest =
  iAmDeviceIdentifier :: "string \<times> int"
  iam_pduSource :: Address
  maxAPDULengthAccepted :: int
  iam_segmentationSupported :: segmentation
  iam_vendorID :: "int option"

text \<open>
  The cache: \<^verbatim>\<open>self.cache\<close> is one dictionary for both kinds of key, holding references to
  the records of the store \<open>infos\<close>.
\<close>

record DeviceInfoCache =
  infos :: "DeviceInfo list"
  cache :: "pykey \<rightharpoonup> nat"

definition new_DeviceInfoCache :: DeviceInfoCache where
  "new_DeviceInfoCache = \<lparr> infos = [], cache = Map.empty \<rparr>"

definition id_key :: "int option \<Rightarrow> pykey" where
  "id_key i = (case i of None \<Rightarrow> NoneKey | Some n \<Rightarrow> IntKey n)"

definition addr_key :: "Address option \<Rightarrow> pykey" where
  "addr_key a = (case a of None \<Rightarrow> NoneKey | Some x \<Rightarrow> AddrKey x)"

definition has_device_info :: "pykey \<Rightarrow> DeviceInfoCache \<Rightarrow> bool" where
  "has_device_info key s = (cache s key \<noteq> None)"

definition is_station :: "Address \<Rightarrow> bool" where
  "is_station a = (addrType a = localStationAddr \<or> addrType a = remoteStationAddr)"

text \<open>
  \<^verbatim>\<open>get_device_info\<close>: an \<^verbatim>\<open>int\<close> key is looked up and nothing else; a key that is not an
  \<^verbatim>\<open>Address\<close>, or an address that is no station, raises \<^verbatim>\<open>TypeError\<close>; a station address is
  looked up and, when absent, a new record is built, given the address and the keys
  \<^verbatim>\<open>(None, key)\<close>, and stored under the address.
\<close>

definition get_device_info ::
    "pykey \<Rightarrow> DeviceInfoCache \<Rightarrow> error + (nat option \<times> DeviceInfoCache)" where
  "get_device_info key s =
     (case key of
        IntKey i \<Rightarrow> Inr (cache s key, s)
      | AddrKey a \<Rightarrow>
          if \<not> is_station a then Inl (TypeError ''address must be a local or remote station'')
          else (case cache s key of
                  Some r \<Rightarrow> Inr (Some r, s)
                | None \<Rightarrow>
                    let current_info = new_DeviceInfo
                          \<lparr> address := Some a, cache_keys := Some (None, Some a) \<rparr>;
                        r = length (infos s)
                    in Inr (Some r, s \<lparr> infos := infos s @ [current_info],
                                        cache := (cache s)(key \<mapsto> r) \<rparr>))
      | _ \<Rightarrow> Inl (TypeError ''key must be integer or an address''))"

text \<open>\<^verbatim>\<open>del d[k]\<close> raises \<^verbatim>\<open>KeyError\<close> when the key is absent.\<close>

definition dict_del :: "(pykey \<rightharpoonup> nat) \<Rightarrow> pykey \<Rightarrow> error + (pykey \<rightharpoonup> nat)" where
  "dict_del d k = (case d k of None \<Rightarrow> Inl (KeyError k) | Some _ \<Rightarrow> Inr (d(k := None)))"

text \<open>
  \<^verbatim>\<open>update_device_info\<close>.  Each of the two blocks runs only when the stored key is not
  \<^verbatim>\<open>None\<close> and differs from the field; it deletes the old entry, stores the record under the
  field's value whatever that is (\<^verbatim>\<open>None\<close> included) and takes the value as the new key.
  The stored keys are then written back.  An exception leaves the function; the half
  updated dictionary is not returned, no property below reads it.
\<close>

definition rekey ::
    "nat \<Rightarrow> pykey \<Rightarrow> pykey \<Rightarrow> (pykey \<rightharpoonup> nat) \<Rightarrow> error + (pykey \<rightharpoonup> nat)" where
  "rekey r old new d =
     (case dict_del d old of Inl e \<Rightarrow> Inl e | Inr d' \<Rightarrow> Inr (d'(new \<mapsto> r)))"

definition update_device_info :: "nat \<Rightarrow> DeviceInfoCache \<Rightarrow> error + DeviceInfoCache" where
  "update_device_info r s =
     (if length (infos s) \<le> r then Inl NoSuchObject
      else let info = infos s ! r in
        case cache_keys info of
          None \<Rightarrow> Inl (AttributeError ''_cache_keys'')
        | Some (cache_id, cache_address) \<Rightarrow>
            (case (if cache_id \<noteq> None \<and> deviceIdentifier info \<noteq> cache_id
                   then (case rekey r (id_key cache_id) (id_key (deviceIdentifier info)) (cache s) of
                           Inl e \<Rightarrow> Inl e
                         | Inr d \<Rightarrow> Inr (d, deviceIdentifier info))
                   else Inr (cache s, cache_id)) of
               Inl e \<Rightarrow> Inl e
             | Inr (d1, cache_id') \<Rightarrow>
                 (case (if cache_address \<noteq> None \<and> address info \<noteq> cache_address
                        then (case rekey r (addr_key cache_address) (addr_key (address info)) d1 of
                                Inl e \<Rightarrow> Inl e
                              | Inr d \<Rightarrow> Inr (d, address info))
                        else Inr (d1, cache_address)) of
                    Inl e \<Rightarrow> Inl e
                  | Inr (d2, cache_address') \<Rightarrow>
                      Inr (s \<lparr> infos := (infos s)
                                  [r := info \<lparr> cache_keys := Some (cache_id', cache_address') \<rparr>],
                               cache := d2 \<rparr>))))"

text \<open>
  \<^verbatim>\<open>add_device_info\<close>: look the identifier up; a record found with the announcement's
  address ends the call, one found with another address gets the new address; when none
  is found the record of the source address is fetched (built when missing) and given the
  identifier.  The three capability values are copied and \<^verbatim>\<open>update_device_info\<close> runs.
\<close>

definition set_info :: "nat \<Rightarrow> (DeviceInfo \<Rightarrow> DeviceInfo) \<Rightarrow> DeviceInfoCache \<Rightarrow> DeviceInfoCache" where
  "set_info r f s = s \<lparr> infos := (infos s)[r := f (infos s ! r)] \<rparr>"

definition add_device_info :: "IAmRequest \<Rightarrow> DeviceInfoCache \<Rightarrow> error + DeviceInfoCache" where
  "add_device_info apdu s =
     (case get_device_info (IntKey (snd (iAmDeviceIdentifier apdu))) s of
        Inl e \<Rightarrow> Inl e
      | Inr (found, s1) \<Rightarrow>
          (case (case found of
                   Some r \<Rightarrow>
                     if length (infos s1) \<le> r then Inl NoSuchObject
                     else if address (infos s1 ! r) = Some (iam_pduSource apdu) then Inr None
                     else Inr (Some (r, set_info r (\<lambda>i. i \<lparr> address := Some (iam_pduSource apdu) \<rparr>) s1))
                 | None \<Rightarrow>
                     (case get_device_info (AddrKey (iam_pduSource apdu)) s1 of
                        Inl e \<Rightarrow> Inl e
                      | Inr (None, s2) \<Rightarrow> Inl (AttributeError ''deviceIdentifier'')
                      | Inr (Some r, s2) \<Rightarrow>
                          Inr (Some (r, set_info r
                                 (\<lambda>i. i \<lparr> deviceIdentifier := Some (snd (iAmDeviceIdentifier apdu)) \<rparr>) s2)))) of
             Inl e \<Rightarrow> Inl e
           | Inr None \<Rightarrow> Inr s1
           | Inr (Some (r, s3)) \<Rightarrow>
               update_device_info r
                 (set_info r (\<lambda>i. i \<lparr> maxApduLengthAccepted := maxAPDULengthAccepted apdu,
                                      segmentationSupported := iam_segmentationSupported apdu,
                                      vendorID := iam_vendorID apdu \<rparr>) s3)))"

text \<open>
  \<^verbatim>\<open>release_device_info\<close> deletes the entries under the stored keys that are not \<^verbatim>\<open>None\<close>.
\<close>

definition release_device_info :: "nat \<Rightarrow> DeviceInfoCache \<Rightarrow> error + DeviceInfoCache" where
  "release_device_info r s =
     (if length (infos s) \<le> r then Inl NoSuchObject
      else case cache_keys (infos s ! r) of
          None \<Rightarrow> Inl (AttributeError ''_cache_keys'')
        | Some (cache_id, cache_address) \<Rightarrow>
            (case (if cache_id \<noteq> None then dict_del (cache s) (id_key cache_id) else Inr (cache s)) of
               Inl e \<Rightarrow> Inl e
             | Inr d1 \<Rightarrow>
                 (case (if cache_address \<noteq> None then dict_del d1 (addr_key cache_address) else Inr d1) of
                    Inl e \<Rightarrow> Inl e
                  | Inr d2 \<Rightarrow> Inr (s \<lparr> cache := d2 \<rparr>))))"

text \<open>A sequence of announcements, one after the other; the first exception ends it.\<close>

fun ingest_all :: "IAmRequest list \<Rightarrow> DeviceInfoCache \<Rightarrow> error + DeviceInfoCache" where
  "ingest_all [] s = Inr s"
| "ingest_all (apdu # rest) s =
     (case add_device_info apdu s of Inl e \<Rightarrow> Inl e | Inr s' \<Rightarrow> ingest_all rest s')"

definition iam :: "int \<Rightarrow> Address \<Rightarrow> IAmRequest" where
  "iam i a = \<lparr> iAmDeviceIdentifier = (''device'', i), iam_pduSource = a,
               maxAPDULengthAccepted = 480, iam_segmentationSupported = segmentedBoth,
               iam_vendorID = Some 15 \<rparr>"

section \<open>Messages, pending requests and the per-destination controller\<close>

text \<open>
  The module tells messages apart by \<^verbatim>\<open>isinstance\<close> against seven classes of \<^verbatim>\<open>apdu.py\<close>
  and by the name of the message's own class.  A message is modelled by the one of the
  seven classes it derives from (or none of them), its class name and its two addresses.
\<close>

datatype pdu_type =
  UnconfirmedRequestPDU | ConfirmedRequestPDU | SimpleAckPDU | ComplexAckPDU
  | ErrorPDU | RejectPDU | AbortPDU | OtherPDU

record APDU =
  pduType :: pdu_type
  className :: string
  pduSource :: Address
  pduDestination :: Address

text \<open>
  Modelled from the spec: the class \<^verbatim>\<open>IOCB\<close> of \<^verbatim>\<open>iocb.py\<close> is imported, not defined, by the
  module.  The spec's PendingRequest wraps one confirmed request and a result slot;
  \<open>ioID\<close> tells two pending requests with equal messages apart, and the result is kept
  in the trace of events below.
\<close>

record IOCB =
  ioID :: nat
  args :: APDU

datatype outcome = Completed APDU | Aborted APDU

text \<open>
  What the layers around the application observe, in order: \<open>Request h m\<close> is a call
  \<^verbatim>\<open>request_fn(m)\<close> to the lower layer, with \<open>h\<close> the \<open>ioID\<close> of the pending request for which
  \<^verbatim>\<open>process_io\<close> made the call, and \<open>None\<close> for a call made by \<^verbatim>\<open>Application.request\<close>
  itself; \<open>Resolved h out\<close> is the pending request \<open>h\<close> getting its outcome.
\<close>

datatype event = Request "nat option" APDU | Resolved nat outcome

text \<open>
  Modelled from the spec: \<^verbatim>\<open>ApplicationController\<close> derives from the class \<^verbatim>\<open>IOQController\<close> of
  \<^verbatim>\<open>iocb.py\<close>, which is imported, not defined, by the module, and which holds the state.
  The spec's DestinationController has a FIFO queue of pending requests and at most one
  active pending request.
\<close>

record ApplicationController =
  ioQueue :: "IOCB list"
  active_iocb :: "IOCB option"

definition new_ApplicationController :: ApplicationController where
  "new_ApplicationController = \<lparr> ioQueue = [], active_iocb = None \<rparr>"

text \<open>
  \<^verbatim>\<open>ApplicationController.process_io\<close> is in the module: it makes the request the active
  one (\<^verbatim>\<open>self.active_io(iocb)\<close>) and sends its message (\<^verbatim>\<open>self.request_fn(iocb.args[0])\<close>).
\<close>

definition process_io ::
    "IOCB \<Rightarrow> ApplicationController \<times> event list \<Rightarrow> ApplicationController \<times> event list" where
  "process_io iocb w =
     (case w of (c, tr) \<Rightarrow>
        (c \<lparr> active_iocb := Some iocb \<rparr>, tr @ [Request (Some (ioID iocb)) (args iocb)]))"

text \<open>
  Modelled from the spec: \<^verbatim>\<open>request_io\<close> of \<^verbatim>\<open>IOQController\<close> is the spec's \<open>submit\<close>.  When no
  request is active the new request is promoted at once and the send callback is called
  with it (\<^verbatim>\<open>process_io\<close>); otherwise it waits at the end of the queue.
\<close>

definition request_io ::
    "IOCB \<Rightarrow> ApplicationController \<times> event list \<Rightarrow> ApplicationController \<times> event list" where
  "request_io iocb w =
     (case w of (c, tr) \<Rightarrow>
        if active_iocb c = None then process_io iocb (c, tr)
        else (c \<lparr> ioQueue := ioQueue c @ [iocb] \<rparr>, tr))"

text \<open>
  Modelled from the spec: the spec's \<open>resolve\<close> of a DestinationController, as one call.
  The active request is marked resolved with the outcome; then, if the queue is not empty,
  its head is taken off, made active and sent (\<^verbatim>\<open>process_io\<close>); otherwise the controller has
  no active request.
\<close>

definition resolve ::
    "outcome \<Rightarrow> ApplicationController \<times> event list \<Rightarrow> ApplicationController \<times> event list" where
  "resolve out w =
     (case w of (c, tr) \<Rightarrow>
        let tr1 = (case active_iocb c of None \<Rightarrow> tr | Some a \<Rightarrow> tr @ [Resolved (ioID a) out])
        in (case ioQueue c of
              [] \<Rightarrow> (c \<lparr> active_iocb := None \<rparr>, tr1)
            | nxt # rest \<Rightarrow> process_io nxt (c \<lparr> ioQueue := rest, active_iocb := None \<rparr>, tr1)))"

text \<open>
  Modelled from the spec: what \<^verbatim>\<open>complete_io\<close> and \<^verbatim>\<open>abort_io\<close> of \<^verbatim>\<open>IOQController\<close> do, the two
  methods that \<^verbatim>\<open>confirmation\<close> calls with the active request.  It is the first half of the
  spec's \<open>resolve\<close>: the active request is marked resolved with the outcome and the
  controller has no active request.  The second half, the promotion of the head of the
  queue, is \<open>trigger\<close>; it runs after the caller has looked at the queue.  The spec has
  the controller removed when its queue becomes empty after a completion or abort and not
  before, to allow immediate reuse for the next queued item: the next queued item is
  still in the queue when the owner of the controller decides.
\<close>

definition finish_io ::
    "outcome \<Rightarrow> ApplicationController \<times> event list \<Rightarrow> ApplicationController \<times> event list" where
  "finish_io out w =
     (case w of (c, tr) \<Rightarrow>
        (c \<lparr> active_iocb := None \<rparr>,
         (case active_iocb c of None \<Rightarrow> tr | Some a \<Rightarrow> tr @ [Resolved (ioID a) out])))"

text \<open>
  Modelled from the spec: \<^verbatim>\<open>complete_io\<close> of \<^verbatim>\<open>IOQController\<close>, the first half of a \<open>resolve\<close>
  with a success.
\<close>

definition complete_io ::
    "APDU \<Rightarrow> ApplicationController \<times> event list \<Rightarrow> ApplicationController \<times> event list" where
  "complete_io msg w = finish_io (Completed msg) w"

text \<open>
  Modelled from the spec: \<^verbatim>\<open>abort_io\<close> of \<^verbatim>\<open>IOQController\<close>, the first half of a \<open>resolve\<close> with
  a failure.
\<close>

definition abort_io ::
    "APDU \<Rightarrow> ApplicationController \<times> event list \<Rightarrow> ApplicationController \<times> event list" where
  "abort_io err w = finish_io (Aborted err) w"

text \<open>
  Modelled from the spec: the promotion that completes a \<open>resolve\<close>.  A controller with no
  active request and a queue that is not empty takes the head off the queue, makes it
  active and sends it (\<^verbatim>\<open>process_io\<close>); any other controller is left as it is.
\<close>

definition trigger ::
    "ApplicationController \<times> event list \<Rightarrow> ApplicationController \<times> event list" where
  "trigger w =
     (case w of (c, tr) \<Rightarrow>
        if active_iocb c \<noteq> None then (c, tr)
        else (case ioQueue c of
                [] \<Rightarrow> (c, tr)
              | nxt # rest \<Rightarrow> process_io nxt (c \<lparr> ioQueue := rest \<rparr>, tr)))"





fun resolves :: "event list \<Rightarrow> nat list" where
  "resolves [] = []"
| "resolves (Request h m # tr) = resolves tr"
| "resolves (Resolved h out # tr) = h # resolves tr"



section \<open>Application\<close>

text \<open>
  Local objects are shared between the two dictionaries, the caller and, for the device
  object, \<^verbatim>\<open>self.localDevice\<close>; they live in the store \<open>objects\<close>.  \<open>bound\<close> stands for the
  attribute \<^verbatim>\<open>_app\<close> being this application.
\<close>

type_synonym objid = "string \<times> int"

record BACnetObject =
  objectName :: "string option"
  objectIdentifier :: "objid option"
  objectList :: "objid list option"
  bound :: bool

text \<open>
  A service helper is the method \<^verbatim>\<open>do_<class name>\<close>.  Of what a helper does, the model keeps
  the responses it sends itself and the exception it raises, if any, named by the first
  \<^verbatim>\<open>except\<close> clause of \<^verbatim>\<open>indication\<close> that catches it: \<^verbatim>\<open>RejectException\<close>, \<^verbatim>\<open>AbortException\<close>,
  \<^verbatim>\<open>ExecutionError\<close> with its class and code, or any other \<^verbatim>\<open>Exception\<close>.  What no
  clause catches (an interpreter exit or a keyboard interrupt, which do not derive from
  \<^verbatim>\<open>Exception\<close>) is not a failure of a helper and has no value here.
\<close>

datatype response = Error string string APDU

datatype raised =
  RaisesReject string | RaisesAbort string
  | RaisesExecutionError string string | RaisesException string

record helper_result =
  emitted :: "response list"
  raises :: "raised option"

text \<open>
  \<open>localDevice = None\<close> is the attribute \<^verbatim>\<open>localDevice\<close> not being set: \<^verbatim>\<open>__init__\<close> assigns
  it only under \<^verbatim>\<open>if localDevice:\<close>.  \<open>lower\<close> is the trace of calls down the stack and
  of resolutions, \<open>responses\<close> the calls of \<^verbatim>\<open>self.response\<close>, and \<open>next_ioID\<close> numbers the
  IOCBs that \<^verbatim>\<open>request\<close> builds.  The attributes the methods below never read
  (\<^verbatim>\<open>localAddress\<close>, \<^verbatim>\<open>deviceInfoCache\<close>) are left out.
\<close>

record Application =
  app_objectName :: "string option \<rightharpoonup> nat"
  app_objectIdentifier :: "objid option \<rightharpoonup> nat"
  localDevice :: "nat option"
  objects :: "BACnetObject list"
  controllers :: "Address \<rightharpoonup> ApplicationController"
  helpers :: "string \<rightharpoonup> (APDU \<Rightarrow> helper_result)"
  lower :: "event list"
  responses :: "response list"
  next_ioID :: nat

definition new_Application ::
    "BACnetObject list \<Rightarrow> nat option \<Rightarrow> (string \<rightharpoonup> (APDU \<Rightarrow> helper_result)) \<Rightarrow> error + Application" where
  "new_Application objs dev hs =
     (let app = \<lparr> app_objectName = Map.empty, app_objectIdentifier = Map.empty,
                   localDevice = None, objects = objs, controllers = Map.empty,
                   helpers = hs, lower = [], responses = [], next_ioID = 0 \<rparr>
      in case dev of
           None \<Rightarrow> Inr app
         | Some d \<Rightarrow>
             if length objs \<le> d then Inl NoSuchObject
             else Inr (app \<lparr> localDevice := Some d,
                             objects := objs[d := (objs ! d) \<lparr> bound := True \<rparr>],
                             app_objectName := [objectName (objs ! d) \<mapsto> d],
                             app_objectIdentifier := [objectIdentifier (objs ! d) \<mapsto> d] \<rparr>))"

text \<open>
  \<^verbatim>\<open>add_object\<close>.  The parameter \<open>maximum_instance_number\<close> is the constant
  \<^verbatim>\<open>ObjectIdentifier.maximum_instance_number\<close> of \<^verbatim>\<open>primitivedata.py\<close>.  The function returns
  the application as the call leaves it, also when the call raises.
\<close>

definition add_object :: "int \<Rightarrow> nat \<Rightarrow> Application \<Rightarrow> (error + unit) \<times> Application" where
  "add_object maximum_instance_number obj app =
     (if length (objects app) \<le> obj then (Inl NoSuchObject, app)
      else let object_name = objectName (objects app ! obj);
               object_identifier = objectIdentifier (objects app ! obj)
        in if object_name = None \<or> object_name = Some [] then
             (Inl (RuntimeError ''object name required''), app)
           else (case object_identifier of
             None \<Rightarrow> (Inl (RuntimeError ''object identifier required''), app)
           | Some oid \<Rightarrow>
               if snd oid \<ge> maximum_instance_number then
                 (Inl (RuntimeError ''invalid object identifier''), app)
               else if app_objectName app object_name \<noteq> None then
                 (Inl (RuntimeError ''already an object with name''), app)
               else if app_objectIdentifier app object_identifier \<noteq> None then
                 (Inl (RuntimeError ''already an object with identifier''), app)
               else
                 let app1 = app \<lparr> app_objectName := (app_objectName app)(object_name \<mapsto> obj),
                                   app_objectIdentifier :=
                                     (app_objectIdentifier app)(object_identifier \<mapsto> obj) \<rparr>
                 in (case localDevice app1 of
                      None \<Rightarrow> (Inl (AttributeError ''localDevice''), app1)
                    | Some d \<Rightarrow>
                        if length (objects app1) \<le> d then (Inl NoSuchObject, app1)
                        else
                          let objs1 =
                                (case objectList (objects app1 ! d) of
                                   None \<Rightarrow> objects app1
                                 | Some [] \<Rightarrow> objects app1
                                 | Some ol \<Rightarrow>
                                     (objects app1)
                                       [d := (objects app1 ! d) \<lparr> objectList := Some (ol @ [oid]) \<rparr>])
                          in (Inr (),
                              app1 \<lparr> objects := objs1[obj := (objs1 ! obj) \<lparr> bound := True \<rparr>] \<rparr>))))"

text \<open>
  \<^verbatim>\<open>request\<close>: an unconfirmed request goes down the stack and \<^verbatim>\<open>None\<close> is returned; a
  confirmed request is wrapped in a new IOCB and handed to the controller of its
  destination, which is created and registered when the registry has none; for any other
  message neither branch assigns \<^verbatim>\<open>iocb\<close> and \<^verbatim>\<open>return iocb\<close> raises.
\<close>

definition request :: "APDU \<Rightarrow> Application \<Rightarrow> (error + IOCB option) \<times> Application" where
  "request apdu app =
     (if pduType apdu = UnconfirmedRequestPDU then
        (Inr None, app \<lparr> lower := lower app @ [Request None apdu] \<rparr>)
      else if pduType apdu = ConfirmedRequestPDU then
        let iocb = \<lparr> ioID = next_ioID app, args = apdu \<rparr>;
            controller = (case controllers app (pduDestination apdu) of
                            None \<Rightarrow> new_ApplicationController
                          | Some c \<Rightarrow> c)
        in (case request_io iocb (controller, lower app) of
              (c', tr') \<Rightarrow>
                (Inr (Some iocb),
                 app \<lparr> controllers := (controllers app)(pduDestination apdu \<mapsto> c'),
                       lower := tr', next_ioID := Suc (next_ioID app) \<rparr>))
      else (Inl (UnboundLocalError ''iocb''), app))"

text \<open>
  \<^verbatim>\<open>confirmation\<close>: without a controller for the source the message is dropped; an
  acknowledgement completes the active request, an error, reject or abort aborts it, any
  other message raises \<^verbatim>\<open>RuntimeError\<close>; then, \<^verbatim>\<open>if not controller.ioQueue.queue\<close>, the
  controller is deleted from the registry.  The next queued request, if any, is promoted
  afterwards (\<open>deferred_trigger\<close> below).
\<close>

definition forget_if_idle ::
    "Address \<Rightarrow> ApplicationController \<times> event list \<Rightarrow> Application \<Rightarrow> Application" where
  "forget_if_idle src w app =
     (case w of (c', tr') \<Rightarrow>
        if ioQueue c' = [] then app \<lparr> controllers := (controllers app)(src := None), lower := tr' \<rparr>
        else app \<lparr> controllers := (controllers app)(src \<mapsto> c'), lower := tr' \<rparr>)"

definition confirmation :: "APDU \<Rightarrow> Application \<Rightarrow> (error + unit) \<times> Application" where
  "confirmation apdu app =
     (case controllers app (pduSource apdu) of
        None \<Rightarrow> (Inr (), app)
      | Some controller \<Rightarrow>
          if pduType apdu = SimpleAckPDU \<or> pduType apdu = ComplexAckPDU then
            (Inr (), forget_if_idle (pduSource apdu) (complete_io apdu (controller, lower app)) app)
          else if pduType apdu = ErrorPDU \<or> pduType apdu = RejectPDU \<or> pduType apdu = AbortPDU then
            (Inr (), forget_if_idle (pduSource apdu) (abort_io apdu (controller, lower app)) app)
          else (Inl (RuntimeError ''unrecognized APDU type''), app))"

text \<open>
  Modelled from the spec: the promotion that follows a confirmation from \<open>src\<close>, on the
  controller that the registry has for \<open>src\<close>, if it has one.
\<close>

definition deferred_trigger :: "Address \<Rightarrow> Application \<Rightarrow> Application" where
  "deferred_trigger src app =
     (case controllers app src of
        None \<Rightarrow> app
      | Some c \<Rightarrow>
          (case trigger (c, lower app) of
             (c', tr') \<Rightarrow> app \<lparr> controllers := (controllers app)(src \<mapsto> c'), lower := tr' \<rparr>))"

text \<open>
  \<^verbatim>\<open>indication\<close>: the helper is looked up by name; without one a confirmed request raises
  \<^verbatim>\<open>UnrecognizedService\<close> and anything else returns; with one, the helper runs and the
  \<^verbatim>\<open>except\<close> clauses are tried in the order of the source.
\<close>

definition send_response :: "response \<Rightarrow> Application \<Rightarrow> Application" where
  "send_response resp app = app \<lparr> responses := responses app @ [resp] \<rparr>"

definition indication :: "APDU \<Rightarrow> Application \<Rightarrow> (error + unit) \<times> Application" where
  "indication apdu app =
     (let helperName = ''do_'' @ className apdu in
      (case helpers app helperName of
        None \<Rightarrow>
          if pduType apdu = ConfirmedRequestPDU
          then (Inl (UnrecognizedService (''no function '' @ helperName)), app)
          else (Inr (), app)
      | Some helperFn \<Rightarrow>
          let app1 = app \<lparr> responses := responses app @ emitted (helperFn apdu) \<rparr> in
          (case raises (helperFn apdu) of
            None \<Rightarrow> (Inr (), app1)
          | Some (RaisesReject m) \<Rightarrow> (Inl (RejectException m), app1)
          | Some (RaisesAbort m) \<Rightarrow> (Inl (AbortException m), app1)
          | Some (RaisesExecutionError errorClass errorCode) \<Rightarrow>
              if pduType apdu = ConfirmedRequestPDU
              then (Inr (), send_response (Error errorClass errorCode apdu) app1)
              else (Inr (), app1)
          | Some (RaisesException m) \<Rightarrow>
              if pduType apdu = ConfirmedRequestPDU
              then (Inr (), send_response (Error ''device'' ''operationalProblem'' apdu) app1)
              else (Inr (), app1))))"

section \<open>Auxiliary notions and sample values\<close>

text \<open>The outcome \<^verbatim>\<open>confirmation\<close> resolves the active request with, by the kind of message.\<close>

definition is_response :: "APDU \<Rightarrow> bool" where
  "is_response apdu =
     (pduType apdu = SimpleAckPDU \<or> pduType apdu = ComplexAckPDU \<or> pduType apdu = ErrorPDU
      \<or> pduType apdu = RejectPDU \<or> pduType apdu = AbortPDU)"

definition resolution :: "APDU \<Rightarrow> outcome" where
  "resolution apdu =
     (if pduType apdu = SimpleAckPDU \<or> pduType apdu = ComplexAckPDU
      then Completed apdu else Aborted apdu)"

text \<open>A record whose stored identifier key is \<^verbatim>\<open>None\<close>.\<close>

definition stored_id_unset :: "DeviceInfo \<Rightarrow> bool" where
  "stored_id_unset info = (case cache_keys info of Some (None, a) \<Rightarrow> True | _ \<Rightarrow> False)"



text \<open>Sample addresses, messages, helpers and states for the concrete runs below.\<close>

definition station :: "nat \<Rightarrow> Address" where
  "station n = Address localStationAddr None [n]"

definition broadcast :: Address where
  "broadcast = Address localBroadcastAddr None []"

definition confirmed_to :: "Address \<Rightarrow> APDU" where
  "confirmed_to d = \<lparr> pduType = ConfirmedRequestPDU, className = ''ReadPropertyRequest'',
                       pduSource = station 0, pduDestination = d \<rparr>"

definition unconfirmed_to :: "Address \<Rightarrow> APDU" where
  "unconfirmed_to d = \<lparr> pduType = UnconfirmedRequestPDU, className = ''WhoIsRequest'',
                         pduSource = station 0, pduDestination = d \<rparr>"

definition ack_from :: "Address \<Rightarrow> APDU" where
  "ack_from d = \<lparr> pduType = SimpleAckPDU, className = ''SimpleAckPDU'',
                  pduSource = d, pduDestination = station 0 \<rparr>"

definition pending :: "nat \<Rightarrow> IOCB" where
  "pending n = \<lparr> ioID = n, args = confirmed_to (station 9) \<rparr>"

definition bare_Application :: Application where
  "bare_Application =
     \<lparr> app_objectName = Map.empty, app_objectIdentifier = Map.empty,
       localDevice = None, objects = [], controllers = Map.empty,
       helpers = Map.empty, lower = [], responses = [], next_ioID = 0 \<rparr>"

definition failing_helper :: "raised \<Rightarrow> APDU \<Rightarrow> helper_result" where
  "failing_helper r apdu = \<lparr> emitted = [], raises = Some r \<rparr>"

definition serving :: "string \<Rightarrow> raised \<Rightarrow> Application" where
  "serving name r = bare_Application \<lparr> helpers := [''do_'' @ name \<mapsto> failing_helper r] \<rparr>"

definition analog_input :: BACnetObject where
  "analog_input = \<lparr> objectName = Some ''ai-1'', objectIdentifier = Some (''analogInput'', 1),
                     objectList = None, bound = False \<rparr>"

definition announced_once :: DeviceInfoCache where
  "announced_once =
     \<lparr> infos = [\<lparr> deviceIdentifier = Some 7, address = Some (station 1),
                  maxApduLengthAccepted = 480, segmentationSupported = segmentedBoth,
                  vendorID = Some 15, maxNpduLength = 1497, maxSegmentsAccepted = None,
                  cache_keys = Some (None, Some (station 1)) \<rparr>],
       cache = [AddrKey (station 1) \<mapsto> 0] \<rparr>"




section \<open>The device information cache\<close>

lemmas cache_defs =
  add_device_info_def get_device_info_def update_device_info_def release_device_info_def
  set_info_def rekey_def dict_del_def id_key_def addr_key_def has_device_info_def
  is_station_def new_DeviceInfoCache_def new_DeviceInfo_def iam_def station_def


text \<open>
  C1.  Two announcements of device 7, first from station 1 and then from station 2, into
  an empty cache.  The specification expects the lookup of 7 to return a record with the second
  address and the first address to find that record no more.  The code runs both calls
  without an exception, and then the lookup of the identifier 7 returns \<^verbatim>\<open>None\<close>: the
  identifier was never indexed, because each record is built by the lookup by address with
  the stored keys \<^verbatim>\<open>(None, address)\<close> and \<^verbatim>\<open>update_device_info\<close> skips the identifier
  whose stored key is \<^verbatim>\<open>None\<close>.  The second announcement therefore built a second record;
  both addresses find a record of device 7, the first one still the old record.
\<close>

theorem moved_device_not_found_by_identifier:
  "\<exists>s. ingest_all [iam 7 (station 1), iam 7 (station 2)] new_DeviceInfoCache = Inr s
     \<and> get_device_info (IntKey 7) s = Inr (None, s)
     \<and> get_device_info (AddrKey (station 1)) s = Inr (Some 0, s)
     \<and> get_device_info (AddrKey (station 2)) s = Inr (Some 1, s)
     \<and> map deviceIdentifier (infos s) = [Some 7, Some 7]
     \<and> map address (infos s) = [Some (station 1), Some (station 2)]"
  by (simp add: cache_defs)

text \<open>
  The same holds for every sequence of announcements into an empty cache: no call indexes
  an identifier and every stored identifier key stays \<^verbatim>\<open>None\<close>, so that the lookup of any
  identifier returns \<^verbatim>\<open>None\<close> afterwards.
\<close>

lemma list_all_update:
  "list_all P xs \<Longrightarrow> (r < length xs \<Longrightarrow> P y) \<Longrightarrow> list_all P (xs[r := y])"
  by (cases "r < length xs") (auto simp: list_all_length nth_list_update)

lemma rekey_addr_keeps_int:
  "rekey r (addr_key a) (addr_key b) d = Inr d' \<Longrightarrow> d' (IntKey i) = d (IntKey i)"
  by (auto simp: rekey_def dict_del_def addr_key_def split: option.splits)

lemma update_keeps_identifiers_unindexed:
  assumes none: "\<forall>i. cache s (IntKey i) = None"
    and keys: "list_all stored_id_unset (infos s)"
    and run: "update_device_info r s = Inr s'"
  shows "(\<forall>i. cache s' (IntKey i) = None) \<and> list_all stored_id_unset (infos s')"
proof -
  from run have r: "r < length (infos s)"
    by (simp add: update_device_info_def split: if_splits)
  with keys have "stored_id_unset (infos s ! r)" by (simp add: list_all_length)
  then obtain a where a: "cache_keys (infos s ! r) = Some (None, a)"
    by (auto simp: stored_id_unset_def split: option.splits)
  show ?thesis
  proof (cases "a \<noteq> None \<and> address (infos s ! r) \<noteq> a")
    case True
    with run r a obtain d
      where d: "rekey r (addr_key a) (addr_key (address (infos s ! r))) (cache s) = Inr d"
        and s': "s' = s \<lparr> infos := (infos s)
                          [r := (infos s ! r) \<lparr> cache_keys := Some (None, address (infos s ! r)) \<rparr>],
                         cache := d \<rparr>"
      by (auto simp: update_device_info_def Let_def split: sum.splits)
    from rekey_addr_keeps_int [OF d] none have "\<forall>i. d (IntKey i) = None" by simp
    with s' keys show ?thesis by (auto simp: stored_id_unset_def intro!: list_all_update)
  next
    case False
    with run r a
    have s': "s' = s \<lparr> infos := (infos s)[r := (infos s ! r) \<lparr> cache_keys := Some (None, a) \<rparr>],
                     cache := cache s \<rparr>"
      by (auto simp: update_device_info_def Let_def split: sum.splits)
    with none keys show ?thesis by (auto simp: stored_id_unset_def intro!: list_all_update)
  qed
qed

lemma set_info_keeps_keys:
  assumes "list_all stored_id_unset (infos s)"
    and "\<And>x. cache_keys (f x) = cache_keys x"
  shows "list_all stored_id_unset (infos (set_info r f s))"
proof -
  have "r < length (infos s) \<Longrightarrow> stored_id_unset (f (infos s ! r))"
    using assms by (simp add: stored_id_unset_def list_all_length)
  with assms(1) show ?thesis
    by (simp add: set_info_def list_all_update)
qed

lemma set_info_cache: "cache (set_info r f s) = cache s"
  by (simp add: set_info_def)

lemma get_by_address_keeps_identifiers_unindexed:
  assumes none: "\<forall>i. cache s (IntKey i) = None"
    and keys: "list_all stored_id_unset (infos s)"
    and run: "get_device_info (AddrKey x) s = Inr (res, s')"
  shows "(\<forall>i. cache s' (IntKey i) = None) \<and> list_all stored_id_unset (infos s')"
  using assms
  by (auto simp: get_device_info_def Let_def stored_id_unset_def new_DeviceInfo_def
           split: if_splits option.splits)

lemma add_keeps_identifiers_unindexed:
  assumes none: "\<forall>i. cache s (IntKey i) = None"
    and keys: "list_all stored_id_unset (infos s)"
    and run: "add_device_info apdu s = Inr s'"
  shows "(\<forall>i. cache s' (IntKey i) = None) \<and> list_all stored_id_unset (infos s')"
proof -
  let ?named = "\<lambda>i. i \<lparr> deviceIdentifier := Some (snd (iAmDeviceIdentifier apdu)) \<rparr>"
  let ?copied = "\<lambda>i. i \<lparr> maxApduLengthAccepted := maxAPDULengthAccepted apdu,
                         segmentationSupported := iam_segmentationSupported apdu,
                         vendorID := iam_vendorID apdu \<rparr>"
  have g: "get_device_info (IntKey (snd (iAmDeviceIdentifier apdu))) s = Inr (None, s)"
    using none by (simp add: get_device_info_def)
  from run g obtain r s2 where
    g2: "get_device_info (AddrKey (iam_pduSource apdu)) s = Inr (Some r, s2)"
    and u: "update_device_info r (set_info r ?copied (set_info r ?named s2)) = Inr s'"
    by (auto simp: add_device_info_def split: sum.splits option.splits)
  from get_by_address_keeps_identifiers_unindexed [OF none keys g2]
  have n2: "\<forall>i. cache s2 (IntKey i) = None"
    and k2: "list_all stored_id_unset (infos s2)"
    by simp_all
  from n2 have n3: "\<forall>i. cache (set_info r ?copied (set_info r ?named s2)) (IntKey i) = None"
    by (simp add: set_info_cache)
  have k3: "list_all stored_id_unset (infos (set_info r ?copied (set_info r ?named s2)))"
    by (intro set_info_keeps_keys k2) simp_all
  from update_keeps_identifiers_unindexed [OF n3 k3 u] show ?thesis .
qed

lemma ingest_all_keeps_identifiers_unindexed:
  assumes "\<forall>i. cache s (IntKey i) = None" and "list_all stored_id_unset (infos s)"
    and "ingest_all apdus s = Inr s'"
  shows "(\<forall>i. cache s' (IntKey i) = None) \<and> list_all stored_id_unset (infos s')"
  using assms
proof (induction apdus arbitrary: s)
  case Nil
  then show ?case by simp
next
  case (Cons apdu rest)
  from Cons.prems(3) obtain s1 where a: "add_device_info apdu s = Inr s1"
    and b: "ingest_all rest s1 = Inr s'"
    by (auto split: sum.splits)
  from add_keeps_identifiers_unindexed [OF Cons.prems(1,2) a] Cons.IH [OF _ _ b]
  show ?case by blast
qed

lemma identifier_lookup_after_ingests:
  assumes "ingest_all apdus new_DeviceInfoCache = Inr s"
  shows "get_device_info (IntKey i) s = Inr (None, s)"
proof -
  have "\<forall>i. cache new_DeviceInfoCache (IntKey i) = None"
    "list_all stored_id_unset (infos new_DeviceInfoCache)"
    by (simp_all add: new_DeviceInfoCache_def)
  from ingest_all_keeps_identifiers_unindexed [OF this assms]
  show ?thesis by (simp add: get_device_info_def)
qed

text \<open>
  C2.  A record built by the lookup of station 1 has the stored keys \<^verbatim>\<open>(None, address)\<close>.
  Its identifier is set to 7 and \<^verbatim>\<open>update_device_info\<close> runs.  The specification expects a new
  index entry under 7 and the stored keys to become \<^verbatim>\<open>(7, address)\<close>.  The code returns
  without an exception, with no entry under 7 and the stored identifier key still \<^verbatim>\<open>None\<close>.
\<close>

theorem reindex_skips_unset_stored_key:
  "\<exists>s1 s2. get_device_info (AddrKey (station 1)) new_DeviceInfoCache = Inr (Some 0, s1)
     \<and> cache_keys (infos s1 ! 0) = Some (None, Some (station 1))
     \<and> update_device_info 0 (set_info 0 (\<lambda>i. i \<lparr> deviceIdentifier := Some 7 \<rparr>) s1) = Inr s2
     \<and> deviceIdentifier (infos s2 ! 0) = Some 7
     \<and> has_device_info (IntKey 7) s2 = False
     \<and> cache_keys (infos s2 ! 0) = Some (None, Some (station 1))"
  by (simp add: cache_defs)

text \<open>
  The other way round: a stored identifier key that is set, and a field that has become
  \<^verbatim>\<open>None\<close>.  The old entry goes and the record is stored under the key \<^verbatim>\<open>None\<close>.
\<close>

lemma reindex_stores_under_None:
  "update_device_info 0
     \<lparr> infos = [new_DeviceInfo \<lparr> cache_keys := Some (Some 7, None) \<rparr>], cache = [IntKey 7 \<mapsto> 0] \<rparr>
   = Inr \<lparr> infos = [new_DeviceInfo \<lparr> cache_keys := Some (None, None) \<rparr>],
           cache = [IntKey 7 \<mapsto> 0](IntKey 7 := None, NoneKey \<mapsto> 0) \<rparr>"
  by (simp add: cache_defs)

text \<open>
  What the code does for a record indexed under two stored keys that are set: both entries
  move to the current values and the stored keys become the current values.
\<close>

lemma reindex_with_stored_keys:
  assumes "r < length (infos s)"
    and "cache_keys (infos s ! r) = Some (Some i, Some a)"
    and "cache s (IntKey i) = Some r" and "cache s (AddrKey a) = Some r"
  shows "\<exists>s'. update_device_info r s = Inr s'
      \<and> cache_keys (infos s' ! r) = Some (deviceIdentifier (infos s ! r), address (infos s ! r))
      \<and> cache s' (id_key (deviceIdentifier (infos s ! r))) = Some r
      \<and> cache s' (addr_key (address (infos s ! r))) = Some r"
  using assms
  by (auto simp: update_device_info_def rekey_def dict_del_def id_key_def addr_key_def Let_def
           split: option.splits)

text \<open>
  C5.  The lookup, by the kind of key.  An identifier returns what the dictionary holds
  under it, possibly nothing, and leaves the cache as it was.  A local or remote station
  address that is present returns its record and leaves the cache as it was; one that is
  absent returns a new reference, the store grown by exactly one blank record with the
  address set and the stored keys \<^verbatim>\<open>(None, address)\<close>, indexed under the address, and a
  second lookup returns the same reference and changes nothing.  Every other key raises
  \<^verbatim>\<open>TypeError\<close>.
\<close>

theorem get_device_info_by_key:
  "get_device_info (IntKey i) s = Inr (cache s (IntKey i), s)
   \<and> (is_station a \<longrightarrow> cache s (AddrKey a) = Some r \<longrightarrow>
        get_device_info (AddrKey a) s = Inr (Some r, s))
   \<and> (is_station a \<longrightarrow> cache s (AddrKey a) = None \<longrightarrow>
        (\<exists>s'. get_device_info (AddrKey a) s = Inr (Some (length (infos s)), s')
           \<and> infos s' = infos s @ [new_DeviceInfo \<lparr> address := Some a,
                                                     cache_keys := Some (None, Some a) \<rparr>]
           \<and> cache s' = (cache s)(AddrKey a \<mapsto> length (infos s))
           \<and> get_device_info (AddrKey a) s' = Inr (Some (length (infos s)), s')))
   \<and> (\<not> is_station a \<longrightarrow> (\<exists>m. get_device_info (AddrKey a) s = Inl (TypeError m)))
   \<and> (\<exists>m. get_device_info NoneKey s = Inl (TypeError m))
   \<and> (\<exists>m. get_device_info (OtherKey c) s = Inl (TypeError m))"
  by (auto simp: get_device_info_def Let_def)

theorem get_device_info_by_key_witness:
  "is_station (station 1) \<and> cache announced_once (AddrKey (station 1)) = Some 0
   \<and> get_device_info (AddrKey (station 1)) announced_once = Inr (Some 0, announced_once)
   \<and> cache announced_once (AddrKey (station 2)) = None
   \<and> (\<exists>s'. get_device_info (AddrKey (station 2)) announced_once = Inr (Some 1, s')
         \<and> length (infos s') = 2
         \<and> get_device_info (AddrKey (station 2)) s' = Inr (Some 1, s'))
   \<and> \<not> is_station broadcast
   \<and> (\<exists>m. get_device_info (AddrKey broadcast) announced_once = Inl (TypeError m))"
proof -
  have st: "is_station (station 1)" "is_station (station 2)" "\<not> is_station broadcast"
    by (simp_all add: is_station_def station_def broadcast_def)
  have c: "cache announced_once (AddrKey (station 1)) = Some 0"
    "cache announced_once (AddrKey (station 2)) = None"
    "length (infos announced_once) = 1"
    by (simp_all add: announced_once_def station_def)
  from st c get_device_info_by_key [of 7 announced_once "station 1" 0]
    get_device_info_by_key [of 7 announced_once "station 2" 0]
    get_device_info_by_key [of 7 announced_once broadcast 0]
  show ?thesis by auto
qed


lemma addr_key_inject: "addr_key a = addr_key b \<Longrightarrow> a = b"
  by (auto simp: addr_key_def split: option.splits)










section \<open>The controller of one destination\<close>



lemma resolves_append: "resolves (tr @ tr') = resolves tr @ resolves tr'"
  by (induction tr rule: resolves.induct) simp_all






text \<open>
  \<^verbatim>\<open>Application.request\<close> submits a confirmed request to the one controller the registry has
  for its destination, or to a new one when it has none, and keeps that controller
  registered.
\<close>

lemma request_confirmed_submits:
  assumes "pduType apdu = ConfirmedRequestPDU"
  shows "controllers (snd (request apdu app)) (pduDestination apdu)
           = Some (fst (request_io \<lparr> ioID = next_ioID app, args = apdu \<rparr>
                   (case controllers app (pduDestination apdu) of
                      None \<Rightarrow> new_ApplicationController | Some c \<Rightarrow> c, lower app)))
       \<and> lower (snd (request apdu app))
           = snd (request_io \<lparr> ioID = next_ioID app, args = apdu \<rparr>
                   (case controllers app (pduDestination apdu) of
                      None \<Rightarrow> new_ApplicationController | Some c \<Rightarrow> c, lower app))
       \<and> fst (request apdu app) = Inr (Some \<lparr> ioID = next_ioID app, args = apdu \<rparr>)"
  using assms by (simp add: request_def Let_def split: prod.splits)


lemmas ctl_defs = request_io_def resolve_def process_io_def complete_io_def abort_io_def
  new_ApplicationController_def


section \<open>Requests and confirmations of the application\<close>

lemmas app_defs = request_def confirmation_def forget_if_idle_def resolution_def is_response_def
  bare_Application_def confirmed_to_def unconfirmed_to_def ack_from_def station_def

text \<open>
  C9.  An unconfirmed request is handed to the lower layer as it is, the call returns
  \<^verbatim>\<open>None\<close> where a confirmed request returns its IOCB, and nothing but the trace of the
  lower layer changes: the registry of controllers is the one before the call.
\<close>

theorem request_unconfirmed:
  assumes "pduType apdu = UnconfirmedRequestPDU"
  shows "fst (request apdu app) = Inr None
       \<and> lower (snd (request apdu app)) = lower app @ [Request None apdu]
       \<and> controllers (snd (request apdu app)) = controllers app
       \<and> snd (request apdu app) = app \<lparr> lower := lower app @ [Request None apdu] \<rparr>"
  using assms by (simp add: request_def)

theorem request_unconfirmed_witness:
  "pduType (unconfirmed_to broadcast) = UnconfirmedRequestPDU
   \<and> fst (request (unconfirmed_to broadcast) bare_Application) = Inr None
   \<and> lower (snd (request (unconfirmed_to broadcast) bare_Application))
       = [Request None (unconfirmed_to broadcast)]
   \<and> controllers (snd (request (unconfirmed_to broadcast) bare_Application)) = Map.empty"
proof -
  have u: "pduType (unconfirmed_to broadcast) = UnconfirmedRequestPDU"
    by (simp add: unconfirmed_to_def)
  from request_unconfirmed [OF u, of bare_Application] u
  show ?thesis by (simp add: bare_Application_def)
qed

text \<open>The spec's \<open>resolve\<close> is the two halves, one after the other.\<close>

lemma resolve_finish_trigger: "resolve out w = trigger (finish_io out w)"
  by (cases w) (simp add: resolve_def finish_io_def trigger_def process_io_def split: list.splits)

text \<open>
  C3.  A confirmation from a source whose controller has an active request, of one of the
  five kinds of response, resolves that request and returns.  The controller is deleted
  from the registry exactly when, after resolving, its queue and its active slot are both
  empty.  With a request still queued it stays registered, and stays so when that request
  is promoted and active.  Once it is deleted, a confirmed request to that destination
  registers a new controller, with that request active and an empty queue.
\<close>

theorem confirmation_forgets_idle_controller:
  assumes ctl: "controllers app (pduSource apdu) = Some c"
    and act: "active_iocb c = Some a"
    and rsp: "is_response apdu"
  shows "fst (confirmation apdu app) = Inr ()
      \<and> lower (snd (confirmation apdu app)) = lower app @ [Resolved (ioID a) (resolution apdu)]
      \<and> (controllers (snd (confirmation apdu app)) (pduSource apdu) = None)
          = (ioQueue (fst (finish_io (resolution apdu) (c, lower app))) = []
             \<and> active_iocb (fst (finish_io (resolution apdu) (c, lower app))) = None)
      \<and> (\<forall>nxt rest. ioQueue c = nxt # rest \<longrightarrow>
             controllers (snd (confirmation apdu app)) (pduSource apdu)
               = Some \<lparr> ioQueue = nxt # rest, active_iocb = None \<rparr>
             \<and> controllers (deferred_trigger (pduSource apdu) (snd (confirmation apdu app)))
                  (pduSource apdu)
               = Some \<lparr> ioQueue = rest, active_iocb = Some nxt \<rparr>
             \<and> lower (deferred_trigger (pduSource apdu) (snd (confirmation apdu app)))
               = lower app @ [Resolved (ioID a) (resolution apdu),
                              Request (Some (ioID nxt)) (args nxt)])
      \<and> (ioQueue c = [] \<longrightarrow>
           (\<forall>m. pduType m = ConfirmedRequestPDU \<longrightarrow> pduDestination m = pduSource apdu \<longrightarrow>
              controllers (snd (request m (snd (confirmation apdu app)))) (pduSource apdu)
                = Some \<lparr> ioQueue = [],
                         active_iocb = Some \<lparr> ioID = next_ioID app, args = m \<rparr> \<rparr>))"
  using assms
  by (cases "ioQueue c")
     (auto simp: request_def confirmation_def forget_if_idle_def resolution_def is_response_def
                 deferred_trigger_def trigger_def finish_io_def ctl_defs Let_def)

theorem confirmation_forgets_idle_controller_witness:
  "controllers (snd (request (confirmed_to (station 9)) bare_Application)) (station 9)
     = Some \<lparr> ioQueue = [], active_iocb = Some (pending 0) \<rparr>
   \<and> is_response (ack_from (station 9))
   \<and> controllers (snd (confirmation (ack_from (station 9))
        (snd (request (confirmed_to (station 9)) bare_Application)))) (station 9) = None
   \<and> pduType (confirmed_to (station 9)) = ConfirmedRequestPDU
   \<and> controllers (snd (request (confirmed_to (station 9))
        (snd (confirmation (ack_from (station 9))
          (snd (request (confirmed_to (station 9)) bare_Application)))))) (station 9)
     = Some \<lparr> ioQueue = [], active_iocb = Some (pending 1) \<rparr>
   \<and> controllers (snd (request (confirmed_to (station 9))
        (snd (request (confirmed_to (station 9)) bare_Application)))) (station 9)
     = Some \<lparr> ioQueue = [pending 1], active_iocb = Some (pending 0) \<rparr>
   \<and> controllers (snd (confirmation (ack_from (station 9))
        (snd (request (confirmed_to (station 9))
          (snd (request (confirmed_to (station 9)) bare_Application)))))) (station 9)
     = Some \<lparr> ioQueue = [pending 1], active_iocb = None \<rparr>
   \<and> controllers (deferred_trigger (station 9) (snd (confirmation (ack_from (station 9))
        (snd (request (confirmed_to (station 9))
          (snd (request (confirmed_to (station 9)) bare_Application))))))) (station 9)
     = Some \<lparr> ioQueue = [], active_iocb = Some (pending 1) \<rparr>"
proof -
  let ?one = "snd (request (confirmed_to (station 9)) bare_Application)"
  let ?two = "snd (request (confirmed_to (station 9)) ?one)"
  have c1: "controllers ?one (pduSource (ack_from (station 9)))
             = Some \<lparr> ioQueue = [], active_iocb = Some (pending 0) \<rparr>"
    by (simp add: app_defs ctl_defs pending_def Let_def)
  have c2: "controllers ?two (pduSource (ack_from (station 9)))
             = Some \<lparr> ioQueue = [pending 1], active_iocb = Some (pending 0) \<rparr>"
    by (simp add: app_defs ctl_defs pending_def Let_def)
  have a1: "active_iocb \<lparr> ioQueue = [], active_iocb = Some (pending 0) \<rparr> = Some (pending 0)"
    and a2: "active_iocb \<lparr> ioQueue = [pending 1], active_iocb = Some (pending 0) \<rparr>
               = Some (pending 0)"
    by simp_all
  have r: "is_response (ack_from (station 9))"
    by (simp add: is_response_def ack_from_def)
  have n: "next_ioID ?one = 1"
    by (simp add: app_defs ctl_defs Let_def)
  have s: "pduSource (ack_from (station 9)) = station 9"
    "pduType (confirmed_to (station 9)) = ConfirmedRequestPDU"
    "pduDestination (confirmed_to (station 9)) = station 9"
    by (simp_all add: ack_from_def confirmed_to_def)
  note idle = confirmation_forgets_idle_controller [OF c1 a1 r]
  note busy = confirmation_forgets_idle_controller [OF c2 a2 r]
  from idle have gone: "controllers (snd (confirmation (ack_from (station 9)) ?one)) (station 9) = None"
    by (simp add: s finish_io_def)
  from idle s n
  have fresh: "controllers (snd (request (confirmed_to (station 9))
                 (snd (confirmation (ack_from (station 9)) ?one)))) (station 9)
               = Some \<lparr> ioQueue = [], active_iocb = Some (pending 1) \<rparr>"
    by (simp add: pending_def)
  from busy
  have kept: "controllers (snd (confirmation (ack_from (station 9)) ?two)) (station 9)
               = Some \<lparr> ioQueue = [pending 1], active_iocb = None \<rparr>"
    and promoted: "controllers (deferred_trigger (station 9)
                      (snd (confirmation (ack_from (station 9)) ?two))) (station 9)
               = Some \<lparr> ioQueue = [], active_iocb = Some (pending 1) \<rparr>"
    by (simp_all add: s)
  from c1 c2 r s gone fresh kept promoted show ?thesis by simp
qed

text \<open>
  Three confirmed requests to station 9, with an acknowledgement and the promotion that
  follows it after the second: request 1 is sent once request 0 is resolved, and request 2
  waits in the queue of the same controller.
\<close>

lemma three_requests_one_controller:
  "lower (snd (request (confirmed_to (station 9))
       (deferred_trigger (station 9) (snd (confirmation (ack_from (station 9))
          (snd (request (confirmed_to (station 9))
             (snd (request (confirmed_to (station 9)) bare_Application)))))))))
     = [Request (Some 0) (confirmed_to (station 9)),
        Resolved 0 (Completed (ack_from (station 9))),
        Request (Some 1) (confirmed_to (station 9))]
   \<and> controllers (snd (request (confirmed_to (station 9))
       (deferred_trigger (station 9) (snd (confirmation (ack_from (station 9))
          (snd (request (confirmed_to (station 9))
             (snd (request (confirmed_to (station 9)) bare_Application))))))))) (station 9)
     = Some \<lparr> ioQueue = [pending 2], active_iocb = Some (pending 1) \<rparr>"
  by (simp add: app_defs ctl_defs deferred_trigger_def trigger_def finish_io_def pending_def Let_def)

section \<open>Indications\<close>

text \<open>
  C7.  The helper of the message's class is registered and raises.  A reject and an abort
  leave \<^verbatim>\<open>indication\<close> as they are and \<^verbatim>\<open>indication\<close> sends nothing.  An \<^verbatim>\<open>ExecutionError\<close>
  is caught: for a confirmed request exactly one \<^verbatim>\<open>Error\<close> with its class and code and the
  request as context follows what the helper sent itself, for any other message nothing
  does.  Any other exception is caught: for a confirmed request exactly one \<^verbatim>\<open>Error\<close> with
  class \<^verbatim>\<open>device\<close> and code \<^verbatim>\<open>operationalProblem\<close> and the request as context follows, for
  any other message nothing does.
\<close>

theorem indication_helper_raises:
  assumes "helpers app (''do_'' @ className apdu) = Some helperFn"
  shows "(raises (helperFn apdu) = Some (RaisesReject m) \<longrightarrow>
            fst (indication apdu app) = Inl (RejectException m)
            \<and> responses (snd (indication apdu app)) = responses app @ emitted (helperFn apdu))
       \<and> (raises (helperFn apdu) = Some (RaisesAbort m) \<longrightarrow>
            fst (indication apdu app) = Inl (AbortException m)
            \<and> responses (snd (indication apdu app)) = responses app @ emitted (helperFn apdu))
       \<and> (raises (helperFn apdu) = Some (RaisesExecutionError errorClass errorCode) \<longrightarrow>
            fst (indication apdu app) = Inr ()
            \<and> responses (snd (indication apdu app))
                = responses app @ emitted (helperFn apdu)
                  @ (if pduType apdu = ConfirmedRequestPDU
                     then [Error errorClass errorCode apdu] else []))
       \<and> (raises (helperFn apdu) = Some (RaisesException m) \<longrightarrow>
            fst (indication apdu app) = Inr ()
            \<and> responses (snd (indication apdu app))
                = responses app @ emitted (helperFn apdu)
                  @ (if pduType apdu = ConfirmedRequestPDU
                     then [Error ''device'' ''operationalProblem'' apdu] else []))"
  using assms by (simp add: indication_def send_response_def)

lemma serving_helper:
  "helpers (serving ''ReadPropertyRequest'' r) (''do_'' @ className (confirmed_to d))
     = Some (failing_helper r)"
  "helpers (serving ''WhoIsRequest'' r) (''do_'' @ className (unconfirmed_to d))
     = Some (failing_helper r)"
  "raises (failing_helper r x) = Some r" "emitted (failing_helper r x) = []"
  "responses (serving n r) = []"
  "pduType (confirmed_to d) = ConfirmedRequestPDU"
  "pduType (unconfirmed_to d) \<noteq> ConfirmedRequestPDU"
  by (simp_all add: serving_def failing_helper_def confirmed_to_def unconfirmed_to_def
        bare_Application_def)

theorem indication_helper_raises_witness:
  "fst (indication (confirmed_to (station 0)) (serving ''ReadPropertyRequest'' (RaisesReject ''missing'')))
     = Inl (RejectException ''missing'')
   \<and> responses (snd (indication (confirmed_to (station 0))
        (serving ''ReadPropertyRequest'' (RaisesReject ''missing'')))) = []
   \<and> fst (indication (confirmed_to (station 0)) (serving ''ReadPropertyRequest'' (RaisesAbort ''other'')))
     = Inl (AbortException ''other'')
   \<and> responses (snd (indication (confirmed_to (station 0))
        (serving ''ReadPropertyRequest'' (RaisesExecutionError ''property'' ''unknownProperty''))))
     = [Error ''property'' ''unknownProperty'' (confirmed_to (station 0))]
   \<and> responses (snd (indication (unconfirmed_to (station 0))
        (serving ''WhoIsRequest'' (RaisesExecutionError ''property'' ''unknownProperty'')))) = []
   \<and> responses (snd (indication (confirmed_to (station 0))
        (serving ''ReadPropertyRequest'' (RaisesException ''KeyError''))))
     = [Error ''device'' ''operationalProblem'' (confirmed_to (station 0))]
   \<and> responses (snd (indication (unconfirmed_to (station 0))
        (serving ''WhoIsRequest'' (RaisesException ''KeyError'')))) = []"
  using
    indication_helper_raises [OF serving_helper(1), of "RaisesReject ''missing''" "station 0" "''missing''"]
    indication_helper_raises [OF serving_helper(1), of "RaisesAbort ''other''" "station 0" "''other''"]
    indication_helper_raises [OF serving_helper(1),
      of "RaisesExecutionError ''property'' ''unknownProperty''" "station 0" _ "''property''" "''unknownProperty''"]
    indication_helper_raises [OF serving_helper(2),
      of "RaisesExecutionError ''property'' ''unknownProperty''" "station 0" _ "''property''" "''unknownProperty''"]
    indication_helper_raises [OF serving_helper(1), of "RaisesException ''KeyError''" "station 0" "''KeyError''"]
    indication_helper_raises [OF serving_helper(2), of "RaisesException ''KeyError''" "station 0" "''KeyError''"]
  by (simp add: serving_helper)

text \<open>
  C8.  No helper is registered for the message's class.  A confirmed request raises
  \<^verbatim>\<open>UnrecognizedService\<close>; an unconfirmed request returns without an exception.  In both
  cases the application is as it was: nothing is sent.
\<close>

theorem indication_without_helper:
  assumes "helpers app (''do_'' @ className apdu) = None"
  shows "(pduType apdu = ConfirmedRequestPDU \<longrightarrow>
            indication apdu app
              = (Inl (UnrecognizedService (''no function do_'' @ className apdu)), app))
       \<and> (pduType apdu = UnconfirmedRequestPDU \<longrightarrow> indication apdu app = (Inr (), app))"
  using assms by (simp add: indication_def)

theorem indication_without_helper_witness:
  "helpers bare_Application (''do_'' @ className (confirmed_to (station 0))) = None
   \<and> pduType (confirmed_to (station 0)) = ConfirmedRequestPDU
   \<and> indication (confirmed_to (station 0)) bare_Application
       = (Inl (UnrecognizedService ''no function do_ReadPropertyRequest''), bare_Application)
   \<and> helpers bare_Application (''do_'' @ className (unconfirmed_to (station 0))) = None
   \<and> pduType (unconfirmed_to (station 0)) = UnconfirmedRequestPDU
   \<and> indication (unconfirmed_to (station 0)) bare_Application = (Inr (), bare_Application)"
proof -
  have h: "helpers bare_Application (''do_'' @ className (confirmed_to (station 0))) = None"
    "helpers bare_Application (''do_'' @ className (unconfirmed_to (station 0))) = None"
    by (simp_all add: bare_Application_def)
  have t: "pduType (confirmed_to (station 0)) = ConfirmedRequestPDU"
    "pduType (unconfirmed_to (station 0)) = UnconfirmedRequestPDU"
    "className (confirmed_to (station 0)) = ''ReadPropertyRequest''"
    by (simp_all add: confirmed_to_def unconfirmed_to_def)
  from indication_without_helper [OF h(1)] indication_without_helper [OF h(2)] h t
  show ?thesis by simp
qed

section \<open>Local objects\<close>

text \<open>
  C10.  The application was constructed without a local device, so that the attribute
  \<^verbatim>\<open>localDevice\<close> is as the constructor left it: not set.  \<^verbatim>\<open>add_object\<close> of an object with a
  name, an identifier whose instance number is below the maximum, and neither the name nor
  the identifier registered yet, raises \<^verbatim>\<open>AttributeError\<close>, and the application it leaves
  has the object in both dictionaries.
\<close>

theorem add_object_without_local_device:
  assumes "new_Application objs None hs = Inr app0"
    and "localDevice app = localDevice app0"
    and "obj < length (objects app)"
    and "objectName (objects app ! obj) = Some name" and "name \<noteq> []"
    and "objectIdentifier (objects app ! obj) = Some oid" and "snd oid < maximum_instance_number"
    and "app_objectName app (Some name) = None"
    and "app_objectIdentifier app (Some oid) = None"
  shows "add_object maximum_instance_number obj app
       = (Inl (AttributeError ''localDevice''),
          app \<lparr> app_objectName := (app_objectName app)(Some name \<mapsto> obj),
                app_objectIdentifier := (app_objectIdentifier app)(Some oid \<mapsto> obj) \<rparr>)"
  using assms by (auto simp: add_object_def new_Application_def Let_def)

theorem add_object_without_local_device_witness:
  "\<exists>app. new_Application [analog_input] None Map.empty = Inr app
     \<and> fst (add_object 4194303 0 app) = Inl (AttributeError ''localDevice'')
     \<and> app_objectName (snd (add_object 4194303 0 app)) (Some ''ai-1'') = Some 0
     \<and> app_objectIdentifier (snd (add_object 4194303 0 app)) (Some (''analogInput'', 1)) = Some 0"
proof -
  obtain app where a: "new_Application [analog_input] None Map.empty = Inr app"
    by (simp add: new_Application_def)
  then have f: "objects app = [analog_input]" "app_objectName app = Map.empty"
    "app_objectIdentifier app = Map.empty"
    by (auto simp: new_Application_def)
  have "add_object 4194303 0 app
       = (Inl (AttributeError ''localDevice''),
          app \<lparr> app_objectName := (app_objectName app)(Some ''ai-1'' \<mapsto> 0),
                app_objectIdentifier := (app_objectIdentifier app)(Some (''analogInput'', 1) \<mapsto> 0) \<rparr>)"
    by (rule add_object_without_local_device [OF a refl]) (simp_all add: f analog_input_def)
  with a show ?thesis by auto
qed

end
